theory Spec2Isabelle
  imports Complex_Main
begin

section \<open>Python values, exceptions and the environment\<close>

text \<open>
  The program is one Python module, \<^verbatim>\<open>main.py\<close>: the class \<^verbatim>\<open>EstudoOrchestrator\<close> with the
  coroutines \<^verbatim>\<open>process_study\<close> and \<^verbatim>\<open>test_apis\<close>, and the aiohttp handlers
  \<^verbatim>\<open>health_check\<close>, \<^verbatim>\<open>api_status\<close> and \<^verbatim>\<open>process_study_endpoint\<close>.

  Python is dynamically typed, so the values the handlers pass around are modelled by one
  datatype. A \<^verbatim>\<open>dict\<close> is an association list in insertion order; every dict of the program
  has string keys. A \<^verbatim>\<open>str\<close> is a \<open>string\<close>; a character outside ASCII is written as its
  UTF-8 bytes (strings are only compared, never measured). A finite \<^verbatim>\<open>float\<close> is the rational
  it denotes; the floats \<^verbatim>\<open>nan\<close>, \<^verbatim>\<open>inf\<close> and \<^verbatim>\<open>-inf\<close> are values of their own. A \<^verbatim>\<open>datetime\<close> is
  the number of microseconds since a fixed epoch.
\<close>

datatype nonfinite = NaN | Infinity | NegInfinity

datatype pyval =
    PNone
  | PBool bool
  | PInt int
  | PFloat rat
  | PNonFinite nonfinite
  | PStr string
  | PList "pyval list"
  | PDict "(string \<times> pyval) list"
  | PDatetime int

text \<open>
  An exception is its class name and the text \<^verbatim>\<open>str(e)\<close> gives. The type stands for the
  instances of \<^verbatim>\<open>Exception\<close>, which is what \<^verbatim>\<open>except Exception\<close> catches. What derives from
  \<^verbatim>\<open>BaseException\<close> alone (the cancellation of a task, \<^verbatim>\<open>KeyboardInterrupt\<close>, \<^verbatim>\<open>SystemExit\<close>)
  is not modelled.
\<close>

datatype py_exn = PyExn (exn_class: string) (exn_str: string)

definition AttributeError :: "string \<Rightarrow> py_exn" where
  "AttributeError msg = PyExn ''AttributeError'' msg"

definition TypeError :: "string \<Rightarrow> py_exn" where
  "TypeError msg = PyExn ''TypeError'' msg"

definition ValueError :: "string \<Rightarrow> py_exn" where
  "ValueError msg = PyExn ''ValueError'' msg"

text \<open>\<^verbatim>\<open>type(v).__name__\<close>, as it appears in the message of an AttributeError.\<close>

fun type_name :: "pyval \<Rightarrow> string" where
  "type_name PNone = ''NoneType''"
| "type_name (PBool b) = ''bool''"
| "type_name (PInt i) = ''int''"
| "type_name (PFloat r) = ''float''"
| "type_name (PNonFinite x) = ''float''"
| "type_name (PStr s) = ''str''"
| "type_name (PList xs) = ''list''"
| "type_name (PDict kvs) = ''dict''"
| "type_name (PDatetime t) = ''datetime.datetime''"

text \<open>
  \<^verbatim>\<open>d.get(k, default)\<close> on a dict. The keys of a Python dict are distinct, so it does not
  matter which binding of a key the lookup takes.
\<close>

definition dict_get :: "(string \<times> pyval) list \<Rightarrow> string \<Rightarrow> pyval \<Rightarrow> pyval" where
  "dict_get kvs k d = (case map_of kvs k of None \<Rightarrow> d | Some v \<Rightarrow> v)"

text \<open>
  The method call \<^verbatim>\<open>obj.get(k, default)\<close> on any value: only a dict has the method; on
  every other value of the datatype the attribute lookup raises AttributeError.
\<close>

definition get_method :: "pyval \<Rightarrow> string \<Rightarrow> pyval \<Rightarrow> py_exn + pyval" where
  "get_method obj k d =
     (case obj of
        PDict kvs \<Rightarrow> Inr (dict_get kvs k d)
      | _ \<Rightarrow> Inl (AttributeError
                 ([CHR 0x27] @ type_name obj @ [CHR 0x27] @ '' object has no attribute ''
                  @ [CHR 0x27] @ ''get'' @ [CHR 0x27])))"

text \<open>The subscript \<^verbatim>\<open>d[k]\<close> as an observation of a result: \<open>None\<close> when the key is absent.\<close>

fun field :: "string \<Rightarrow> pyval \<Rightarrow> pyval option" where
  "field k (PDict kvs) = map_of kvs k"
| "field k v = None"

text \<open>The keys of a dict, in order.\<close>

fun keys :: "pyval \<Rightarrow> string list" where
  "keys (PDict kvs) = map fst kvs"
| "keys v = []"

subsection \<open>The orchestrator's state\<close>

text \<open>
  \<^verbatim>\<open>self.processing_stats\<close> is a dict with three fixed keys; \<^verbatim>\<open>self.config\<close> holds what
  \<^verbatim>\<open>os.getenv\<close> returned for each variable (\<open>None\<close> when it is unset).
\<close>

record stats_dict =
  studies_completed :: int
  studies_failed :: int
  uptime_start :: int

record config_dict =
  openai_key :: "string option"
  google_key :: "string option"
  anthropic_key :: "string option"
  cohere_key :: "string option"
  mistral_key :: "string option"
  supabase_url :: "string option"
  supabase_key :: "string option"

record orchestrator =
  active_studies :: "(string \<times> pyval) list"
  processing_stats :: stats_dict
  config :: config_dict

text \<open>\<^verbatim>\<open>EstudoOrchestrator.__init__\<close>, given the clock reading and the environment variables.\<close>

definition init :: "int \<Rightarrow> config_dict \<Rightarrow> orchestrator" where
  "init t0 cfg =
     \<lparr>active_studies = [],
      processing_stats = \<lparr>studies_completed = 0, studies_failed = 0, uptime_start = t0\<rparr>,
      config = cfg\<rparr>"

subsection \<open>What the program asks of the outside\<close>

text \<open>An HTTP request that \<^verbatim>\<open>test_apis\<close> sends, and what comes of it.\<close>

record http_request =
  http_method :: string
  url :: string
  headers :: "(string \<times> pyval) list"
  json_payload :: "pyval option"
  timeout :: int

datatype http_outcome = Responded int | Failed py_exn

text \<open>
  The environment of one handler invocation:
  \<^item> \<open>phase_work i\<close> is what the work step of phase \<open>i\<close> does (\<^verbatim>\<open>await asyncio.sleep(2)\<close>, the
    placeholder for the real integration): \<open>None\<close> when it returns, \<open>Some e\<close> when it raises
    \<open>e\<close>;
  \<^item> \<open>now k\<close> is what the \<open>k\<close>-th call of \<^verbatim>\<open>datetime.now()\<close> in the invocation returns
    (counted from 0);
  \<^item> \<open>isoformat\<close> is \<^verbatim>\<open>datetime.isoformat\<close>;
  \<^item> \<open>http\<close> is what the network does with a request sent through aiohttp;
  \<^item> \<open>repr_raises v\<close> is what \<^verbatim>\<open>repr\<close> does on the list or dict \<open>v\<close> in this interpreter:
    \<open>Some e\<close> when it raises (ValueError when it reaches an int beyond the digit limit,
    RecursionError when \<open>v\<close> is nested deeper than the stack allows), \<open>None\<close> when it
    returns.
  Of a logging call only the formatting of its message is modelled: the message is an
  f-string, built before the call, and the call itself has no effect on any result.
\<close>

record env =
  phase_work :: "nat \<Rightarrow> py_exn option"
  now :: "nat \<Rightarrow> int"
  isoformat :: "int \<Rightarrow> string"
  http :: "http_request \<Rightarrow> http_outcome"
  repr_raises :: "pyval \<Rightarrow> py_exn option"

text \<open>
  The default limit of the int-to-str conversion (\<^verbatim>\<open>sys.get_int_max_str_digits()\<close>, Python 3.11
  and later): an int of more decimal digits is not converted to a str.
\<close>

definition int_max_str_digits :: nat where
  "int_max_str_digits = 4300"

text \<open>The exception raised instead.\<close>

definition int_str_error :: py_exn where
  "int_str_error =
     ValueError (''Exceeds the limit (4300 digits) for integer string conversion; ''
                 @ ''use sys.set_int_max_str_digits() to increase the limit'')"

text \<open>
  A replacement field \<^verbatim>\<open>{v}\<close> of an f-string formats \<open>v\<close> with \<^verbatim>\<open>str(v)\<close>: \<open>None\<close> when that
  yields a text, \<open>Some e\<close> when it raises \<open>e\<close>. A str, a float, a bool, None and a datetime
  always format. An int formats unless it has more than \<open>int_max_str_digits\<close> digits, that
  is, unless its absolute value reaches \<open>10 ^ int_max_str_digits\<close>. The str of a list or
  dict is its repr, which formats the elements in turn.
\<close>

definition fstring :: "env \<Rightarrow> pyval \<Rightarrow> py_exn option" where
  "fstring env v =
     (case v of
        PInt n \<Rightarrow> (if 10 ^ int_max_str_digits \<le> \<bar>n\<bar> then Some int_str_error else None)
      | PList xs \<Rightarrow> repr_raises env v
      | PDict kvs \<Rightarrow> repr_raises env v
      | _ \<Rightarrow> None)"

section \<open>process_study\<close>

text \<open>The four phase names (lines 56 to 61).\<close>

definition phases :: "string list" where
  "phases =
     [''Planejamento Estrat'' @ [CHR 0xC3, CHR 0xA9] @ ''gico'',
      ''Extra'' @ [CHR 0xC3, CHR 0xA7, CHR 0xC3, CHR 0xA3] @ ''o de Dados'',
      ''Gera'' @ [CHR 0xC3, CHR 0xA7, CHR 0xC3, CHR 0xA3] @ ''o de Conte'' @ [CHR 0xC3, CHR 0xBA] @ ''do'',
      ''Polimento Final'']"

text \<open>The record appended for a phase; \<open>k\<close> is the number of clock readings made so far.\<close>

definition phase_record :: "env \<Rightarrow> string \<Rightarrow> nat \<Rightarrow> pyval" where
  "phase_record env phase k =
     PDict [(''phase'', PStr phase),
            (''status'', PStr ''completed''),
            (''timestamp'', PStr (isoformat env (now env k)))]"

text \<open>
  The loop \<^verbatim>\<open>for i, phase in enumerate(phases, 1)\<close>, with the local \<^verbatim>\<open>results\<close> passed along.
  It returns \<^verbatim>\<open>results\<close> as it stands when the loop is left, and the exception that left it,
  if one did. Each finished phase reads the clock once, so the number of readings made is
  the length of \<^verbatim>\<open>results\<close>.
\<close>

fun run_phases :: "env \<Rightarrow> (nat \<times> string) list \<Rightarrow> pyval list \<Rightarrow> pyval list \<times> py_exn option" where
  "run_phases env [] results = (results, None)"
| "run_phases env ((i, phase) # rest) results =
     (case phase_work env i of
        Some e \<Rightarrow> (results, Some e)
      | None \<Rightarrow> run_phases env rest (results @ [phase_record env phase (length results)]))"

definition add_completed :: "orchestrator \<Rightarrow> orchestrator" where
  "add_completed self =
     self\<lparr>processing_stats :=
       (processing_stats self)\<lparr>studies_completed := studies_completed (processing_stats self) + 1\<rparr>\<rparr>"

definition add_failed :: "orchestrator \<Rightarrow> orchestrator" where
  "add_failed self =
     self\<lparr>processing_stats :=
       (processing_stats self)\<lparr>studies_failed := studies_failed (processing_stats self) + 1\<rparr>\<rparr>"

text \<open>The dict the \<^verbatim>\<open>except Exception as e\<close> branch returns (lines 103 to 108).\<close>

definition error_result :: "env \<Rightarrow> pyval \<Rightarrow> py_exn \<Rightarrow> nat \<Rightarrow> pyval" where
  "error_result env study_id e k =
     PDict [(''study_id'', study_id),
            (''status'', PStr ''error''),
            (''error'', PStr (exn_str e)),
            (''failed_at'', PStr (isoformat env (now env k)))]"

text \<open>The dict built on success (lines 78 to 92).\<close>

definition final_result :: "env \<Rightarrow> pyval \<Rightarrow> pyval list \<Rightarrow> pyval \<Rightarrow> nat \<Rightarrow> pyval" where
  "final_result env study_id results title k =
     PDict [(''study_id'', study_id),
            (''status'', PStr ''completed''),
            (''phases'', PList results),
            (''final_content'',
               PDict [(''title'', title),
                      (''chapters'', PInt 8),
                      (''words'', PInt 15000),
                      (''images'', PInt 5),
                      (''charts'', PInt 3),
                      (''processing_time'', PStr ''2.5 hours''),
                      (''cost_usd'', PFloat 7.50)]),
            (''completed_at'', PStr (isoformat env (now env k)))]"

text \<open>
  The \<^verbatim>\<open>except Exception as e\<close> branch (lines 99 to 108), entered with \<open>e\<close> after \<open>k\<close> clock
  readings. Its first statement logs an f-string with the fields \<^verbatim>\<open>{study_id}\<close> and \<^verbatim>\<open>{e}\<close>:
  when \<^verbatim>\<open>study_id\<close> does not format, that raises inside the handler, so the exception leaves
  the coroutine before the counter of line 101 is touched.
\<close>

definition except_handler :: "env \<Rightarrow> orchestrator \<Rightarrow> pyval \<Rightarrow> py_exn \<Rightarrow> nat \<Rightarrow> orchestrator \<times> (py_exn + pyval)" where
  "except_handler env self study_id e k =
     (case fstring env study_id of
        Some e' \<Rightarrow> (self, Inl e')
      | None \<Rightarrow> (add_failed self, Inr (error_result env study_id e k)))"

text \<open>
  \<^verbatim>\<open>process_study\<close>. The first statement, \<^verbatim>\<open>study_data.get('id', 'demo-001')\<close>, stands before the
  \<^verbatim>\<open>try\<close>: an exception there leaves the coroutine and no counter is touched. Everything
  after it is inside the \<^verbatim>\<open>try\<close>: the log line of line 53, which formats \<^verbatim>\<open>study_id\<close>; the
  loop; the dict of lines 78 to 92, which reads the title and the clock; the increment of
  line 94; the log line of line 95, which formats \<^verbatim>\<open>study_id\<close> again. (The log line of line
  65 formats a small int and a constant str, and cannot raise.) An exception in the \<^verbatim>\<open>try\<close>
  goes to the handler above. The result is the new state of the orchestrator and either
  the exception that left the coroutine or the dict it returned.
\<close>

definition process_study :: "env \<Rightarrow> orchestrator \<Rightarrow> pyval \<Rightarrow> orchestrator \<times> (py_exn + pyval)" where
  "process_study env self study_data =
     (case get_method study_data ''id'' (PStr ''demo-001'') of
        Inl e \<Rightarrow> (self, Inl e)
      | Inr study_id \<Rightarrow>
          (case fstring env study_id of
             Some e \<Rightarrow> except_handler env self study_id e 0
           | None \<Rightarrow>
               (case run_phases env (List.enumerate 1 phases) [] of
                  (results, Some e) \<Rightarrow> except_handler env self study_id e (length results)
                | (results, None) \<Rightarrow>
                    (case get_method study_data ''title''
                            (PStr (''Estudo T'' @ [CHR 0xC3, CHR 0xA9] @ ''cnico Automatizado'')) of
                       Inl e \<Rightarrow> except_handler env self study_id e (length results)
                     | Inr title \<Rightarrow>
                         (case fstring env study_id of
                            Some e \<Rightarrow>
                              except_handler env (add_completed self) study_id e (Suc (length results))
                          | None \<Rightarrow>
                              (add_completed self,
                               Inr (final_result env study_id results title (length results))))))))"

section \<open>The HTTP handlers\<close>

text \<open>
  \<^verbatim>\<open>web.json_response(data)\<close> of aiohttp serialises \<open>data\<close> with \<^verbatim>\<open>json.dumps\<close> and wraps the text
  in a response of status 200. \<^verbatim>\<open>json.dumps\<close> raises TypeError on an object that is not a
  dict, list, str, int, float, bool or None; of the values here, that is a datetime
  (\<^verbatim>\<open>nan\<close> and the infinities are written out, \<^verbatim>\<open>allow_nan\<close> being on). The body of a response
  is kept as the value that was serialised. Only this check of the types is modelled:
  \<^verbatim>\<open>json.dumps\<close> also raises on an int of more than 4300 digits and on nesting deeper than
  the stack allows. The values serialised below hold the program's constants, its
  counters, clock texts and the strs of the demo request and of the request of C1.
\<close>

record response =
  http_status :: int
  http_body :: pyval

fun json_serializable :: "pyval \<Rightarrow> bool" where
  "json_serializable (PDatetime t) = False"
| "json_serializable (PList xs) = list_all json_serializable xs"
| "json_serializable (PDict kvs) = list_all (\<lambda>kv. json_serializable (snd kv)) kvs"
| "json_serializable v = True"

definition json_response :: "pyval \<Rightarrow> py_exn + response" where
  "json_response data =
     (if json_serializable data then Inr \<lparr>http_status = 200, http_body = data\<rparr>
      else Inl (TypeError ''Object of type datetime is not JSON serializable''))"

text \<open>
  A request, as the handler of \<^verbatim>\<open>POST /process\<close> sees it: what \<^verbatim>\<open>await request.json()\<close> does,
  which is \<^verbatim>\<open>json.loads\<close> on the text of the body. \<open>None\<close> when it raises (\<^verbatim>\<open>json.loads\<close>
  rejects the body; it rejects the empty body), \<open>Some v\<close> when \<^verbatim>\<open>json.loads\<close> returns \<open>v\<close>.
  \<^verbatim>\<open>json.loads\<close> accepts more than JSON: the bodies \<^verbatim>\<open>NaN\<close>, \<^verbatim>\<open>Infinity\<close> and \<^verbatim>\<open>-Infinity\<close>, which
  are not JSON texts, parse to the floats \<^verbatim>\<open>nan\<close>, \<^verbatim>\<open>inf\<close> and \<^verbatim>\<open>-inf\<close>.
\<close>

datatype request = Request (request_json: "pyval option")

text \<open>The dict substituted when \<^verbatim>\<open>request.json()\<close> raises (lines 193 to 197).\<close>

definition demo_data :: pyval where
  "demo_data =
     PDict [(''id'', PStr ''demo-study''),
            (''title'', PStr (''Estudo de Demonstra'' @ [CHR 0xC3, CHR 0xA7, CHR 0xC3, CHR 0xA3] @ ''o'')),
            (''client'', PStr ''Cliente Demo'')]"

text \<open>
  \<^verbatim>\<open>process_study_endpoint\<close>: the bare \<^verbatim>\<open>except:\<close> catches whatever \<^verbatim>\<open>request.json()\<close> raises;
  the rest of the handler is unguarded, so an exception of \<^verbatim>\<open>process_study\<close> or of
  \<^verbatim>\<open>json_response\<close> leaves the handler.
\<close>

definition process_study_endpoint :: "env \<Rightarrow> orchestrator \<Rightarrow> request \<Rightarrow> orchestrator \<times> (py_exn + response)" where
  "process_study_endpoint env self request =
     (let data = (case request_json request of None \<Rightarrow> demo_data | Some v \<Rightarrow> v) in
      case process_study env self data of
        (self', Inl e) \<Rightarrow> (self', Inl e)
      | (self', Inr result) \<Rightarrow> (self', json_response result))"

text \<open>
  \<^verbatim>\<open>health_check\<close>. \<^verbatim>\<open>int(uptime.total_seconds())\<close> is the difference of the two instants in
  whole seconds, rounded toward zero (\<^verbatim>\<open>total_seconds\<close> is a float; the division below is
  exact, and the two differ only for durations of centuries). The value under \<^verbatim>\<open>'stats'\<close> is the dict
  \<^verbatim>\<open>orchestrator.processing_stats\<close> itself, whose \<^verbatim>\<open>'uptime_start'\<close> is the datetime stored by
  \<^verbatim>\<open>__init__\<close>.
\<close>

definition int_total_seconds :: "int \<Rightarrow> int" where
  "int_total_seconds d = (if 0 \<le> d then d div 1000000 else - ((- d) div 1000000))"

definition stats_value :: "stats_dict \<Rightarrow> pyval" where
  "stats_value s =
     PDict [(''studies_completed'', PInt (studies_completed s)),
            (''studies_failed'', PInt (studies_failed s)),
            (''uptime_start'', PDatetime (uptime_start s))]"

definition health_body :: "env \<Rightarrow> orchestrator \<Rightarrow> pyval" where
  "health_body env self =
     (let uptime = now env 0 - uptime_start (processing_stats self) in
      PDict [(''status'', PStr ''healthy''),
             (''service'', PStr (''Esteira de Produ'' @ [CHR 0xC3, CHR 0xA7, CHR 0xC3, CHR 0xA3]
                                 @ ''o Inteligente'')),
             (''uptime_seconds'', PInt (int_total_seconds uptime)),
             (''stats'', stats_value (processing_stats self)),
             (''timestamp'', PStr (isoformat env (now env 1)))])"

definition health_check :: "env \<Rightarrow> orchestrator \<Rightarrow> request \<Rightarrow> py_exn + response" where
  "health_check env self request = json_response (health_body env self)"

section \<open>test_apis and api_status\<close>

text \<open>An f-string field \<^verbatim>\<open>{v}\<close> for a configuration value: \<^verbatim>\<open>str(None)\<close> is \<^verbatim>\<open>'None'\<close>.\<close>

definition py_format :: "string option \<Rightarrow> string" where
  "py_format v = (case v of None \<Rightarrow> ''None'' | Some s \<Rightarrow> s)"

definition config_value :: "string option \<Rightarrow> pyval" where
  "config_value v = (case v of None \<Rightarrow> PNone | Some s \<Rightarrow> PStr s)"

text \<open>The assignment \<^verbatim>\<open>d[k] = v\<close>: the value of an existing key is replaced, a new key goes last.\<close>

fun dict_set :: "(string \<times> pyval) list \<Rightarrow> string \<Rightarrow> pyval \<Rightarrow> (string \<times> pyval) list" where
  "dict_set [] k v = [(k, v)]"
| "dict_set ((k', v') # kvs) k v =
     (if k' = k then (k', v) # kvs else (k', v') # dict_set kvs k v)"

text \<open>The request of the first probe (lines 116 to 132) and of the second (lines 142 to 152).\<close>

definition openai_request :: "orchestrator \<Rightarrow> http_request" where
  "openai_request self =
     \<lparr>http_method = ''POST'',
      url = ''https://api.openai.com/v1/chat/completions'',
      headers = [(''Authorization'', PStr (''Bearer '' @ py_format (openai_key (config self)))),
                 (''Content-Type'', PStr ''application/json'')],
      json_payload =
        Some (PDict [(''model'', PStr ''gpt-4-turbo-preview''),
                     (''messages'', PList [PDict [(''role'', PStr ''user''), (''content'', PStr ''Test'')]]),
                     (''max_tokens'', PInt 5)]),
      timeout = 30\<rparr>"

definition supabase_request :: "orchestrator \<Rightarrow> http_request" where
  "supabase_request self =
     \<lparr>http_method = ''GET'',
      url = py_format (supabase_url (config self)) @ ''/rest/v1/'',
      headers = [(''apikey'', config_value (supabase_key (config self))),
                 (''Authorization'', PStr (''Bearer '' @ py_format (supabase_key (config self))))],
      json_payload = None,
      timeout = 30\<rparr>"

text \<open>
  One \<^verbatim>\<open>try\<close> block of \<^verbatim>\<open>test_apis\<close>: the entry stored for a provider, from what came of its
  request. \<open>label\<close> is the fixed \<^verbatim>\<open>'response_time'\<close> text of the provider.
\<close>

definition probe_entry :: "http_outcome \<Rightarrow> string \<Rightarrow> pyval" where
  "probe_entry outcome label =
     (case outcome of
        Responded st \<Rightarrow>
          PDict [(''status'', PStr (if st = 200 then ''ok'' else ''error'')),
                 (''response_time'', PStr label)]
      | Failed e \<Rightarrow> PDict [(''status'', PStr ''error''), (''error'', PStr (exn_str e))])"

text \<open>
  \<^verbatim>\<open>test_apis\<close>: the two blocks in sequence. Beside the dict \<^verbatim>\<open>results\<close> it returns the
  requests handed to the network, in the order they were sent.
\<close>

definition test_apis :: "env \<Rightarrow> orchestrator \<Rightarrow> http_request list \<times> (string \<times> pyval) list" where
  "test_apis env self =
     (let results0 = [];
          r1 = openai_request self;
          results1 = dict_set results0 ''openai'' (probe_entry (http env r1) ''~1s'');
          r2 = supabase_request self;
          results2 = dict_set results1 ''supabase'' (probe_entry (http env r2) ''~500ms'')
      in ([r1, r2], results2))"

definition api_status :: "env \<Rightarrow> orchestrator \<Rightarrow> request \<Rightarrow> py_exn + response" where
  "api_status env self request =
     (let api_results = snd (test_apis env self) in
      json_response (PDict [(''apis'', PDict api_results),
                            (''timestamp'', PStr (isoformat env (now env 0)))]))"

section \<open>Sequences of invocations\<close>




section \<open>Reference definitions and sample environments\<close>

text \<open>
  What the loop appends when the phases \<open>ps\<close> all finish, the clock having been read \<open>k\<close>
  times before: one record per phase, in the order of \<open>ps\<close>.
\<close>

fun records_from :: "env \<Rightarrow> nat \<Rightarrow> string list \<Rightarrow> pyval list" where
  "records_from env k [] = []"
| "records_from env k (p # ps) = phase_record env p k # records_from env (Suc k) ps"

text \<open>An environment in which no phase raises, and an empty configuration.\<close>

definition quiet_env :: env where
  "quiet_env =
     \<lparr>phase_work = (\<lambda>i. None), now = (\<lambda>k. 1000000 * int k),
      isoformat = (\<lambda>t. ''2024-01-01T00:00:00''), http = (\<lambda>r. Responded 200),
      repr_raises = (\<lambda>v. None)\<rparr>"

definition no_config :: config_dict where
  "no_config = \<lparr>openai_key = None, google_key = None, anthropic_key = None, cohere_key = None,
                mistral_key = None, supabase_url = None, supabase_key = None\<rparr>"

text \<open>An environment in which the work of the third phase raises.\<close>

definition failing_env :: env where
  "failing_env =
     \<lparr>phase_work = (\<lambda>i. if i = 3 then Some (PyExn ''RuntimeError'' ''boom'') else None),
      now = (\<lambda>k. 1000000 * int k),
      isoformat = (\<lambda>t. ''2024-01-01T00:00:00''), http = (\<lambda>r. Responded 200),
      repr_raises = (\<lambda>v. None)\<rparr>"

text \<open>An environment whose network fails the first probe and answers 200 to the second.\<close>

definition offline_env :: env where
  "offline_env =
     \<lparr>phase_work = (\<lambda>i. None), now = (\<lambda>k. 1000000 * int k),
      isoformat = (\<lambda>t. ''2024-01-01T00:00:00''),
      http = (\<lambda>r. if http_method r = ''POST'' then Failed (PyExn ''TimeoutError'' [])
                    else Responded 200),
      repr_raises = (\<lambda>v. None)\<rparr>"

text \<open>The request whose body is the JSON text \<^verbatim>\<open>{"id":"s-1","title":"T"}\<close>.\<close>

definition s1_request :: request where
  "s1_request = Request (Some (PDict [(''id'', PStr ''s-1''), (''title'', PStr ''T'')]))"


text \<open>An environment whose network answers the first probe with 200 and fails the second.\<close>

definition supabase_down_env :: env where
  "supabase_down_env =
     \<lparr>phase_work = (\<lambda>i. None), now = (\<lambda>k. 1000000 * int k),
      isoformat = (\<lambda>t. ''2024-01-01T00:00:00''),
      http = (\<lambda>r. if http_method r = ''GET''
                    then Failed (PyExn ''ClientConnectorError'' ''Cannot connect to host'')
                    else Responded 200),
      repr_raises = (\<lambda>v. None)\<rparr>"

text \<open>An environment whose network answers every request with 204 No Content.\<close>

definition no_content_env :: env where
  "no_content_env =
     \<lparr>phase_work = (\<lambda>i. None), now = (\<lambda>k. 1000000 * int k),
      isoformat = (\<lambda>t. ''2024-01-01T00:00:00''), http = (\<lambda>r. Responded 204),
      repr_raises = (\<lambda>v. None)\<rparr>"

section \<open>The phase loop\<close>

lemma run_phases_all_return:
  "list_all (\<lambda>ip. phase_work env (fst ip) = None) ips \<Longrightarrow>
   run_phases env ips acc = (acc @ records_from env (length acc) (map snd ips), None)"
  by (induction ips arbitrary: acc) auto

lemma run_phases_raise:
  "list_all (\<lambda>ip. phase_work env (fst ip) = None) pre \<Longrightarrow> phase_work env i = Some e \<Longrightarrow>
   run_phases env (pre @ (i, p) # post) acc = (acc @ records_from env (length acc) (map snd pre), Some e)"
  by (induction pre arbitrary: acc) auto

lemma run_phases_None_iff:
  "snd (run_phases env ips acc) = None \<longleftrightarrow> list_all (\<lambda>ip. phase_work env (fst ip) = None) ips"
  by (induction ips arbitrary: acc) (auto split: option.splits)

lemma enumerate_phases:
  "List.enumerate 1 phases = [(1, phases ! 0), (2, phases ! 1), (3, phases ! 2), (4, phases ! 3)]"
  by (simp add: phases_def)


lemma run_phases_four:
  assumes "\<forall>i\<in>{1..4}. phase_work env i = None"
  shows "run_phases env (List.enumerate 1 phases) [] = (records_from env 0 phases, None)"
proof -
  have "list_all (\<lambda>ip. phase_work env (fst ip) = None) (List.enumerate 1 phases)"
    unfolding enumerate_phases using assms by simp
  from run_phases_all_return [OF this, of "[]"] show ?thesis by simp
qed



section \<open>process_study on a dict\<close>

lemma fstring_str [simp]: "fstring env (PStr s) = None"
  by (simp add: fstring_def)



lemma process_study_dict_cases:
  assumes "fstring env (dict_get kvs ''id'' (PStr ''demo-001'')) = None"
  shows "process_study env self (PDict kvs) =
     (case snd (run_phases env (List.enumerate 1 phases) []) of
        None \<Rightarrow> (add_completed self,
                 Inr (final_result env (dict_get kvs ''id'' (PStr ''demo-001''))
                        (fst (run_phases env (List.enumerate 1 phases) []))
                        (dict_get kvs ''title'' (PStr (''Estudo T'' @ [CHR 0xC3, CHR 0xA9] @ ''cnico Automatizado'')))
                        (length (fst (run_phases env (List.enumerate 1 phases) [])))))
      | Some e \<Rightarrow> (add_failed self,
                   Inr (error_result env (dict_get kvs ''id'' (PStr ''demo-001'')) e
                          (length (fst (run_phases env (List.enumerate 1 phases) []))))))"
  using assms
  by (simp add: process_study_def get_method_def except_handler_def split: prod.splits option.splits)

lemma process_study_returns:
  assumes "fstring env (dict_get kvs ''id'' (PStr ''demo-001'')) = None"
    and "\<forall>i\<in>{1..4}. phase_work env i = None"
  shows "process_study env self (PDict kvs) =
           (add_completed self,
            Inr (final_result env (dict_get kvs ''id'' (PStr ''demo-001'')) (records_from env 0 phases)
                   (dict_get kvs ''title'' (PStr (''Estudo T'' @ [CHR 0xC3, CHR 0xA9] @ ''cnico Automatizado''))) 4))"
proof -
  have "length (records_from env 0 phases) = 4" by (simp add: phases_def)
  with run_phases_four [OF assms(2)] show ?thesis
    by (simp add: process_study_dict_cases [OF assms(1)])
qed


lemma no_phase_raises_iff:
  "snd (run_phases env (List.enumerate 1 phases) []) = None \<longleftrightarrow> (\<forall>i\<in>{1..4}. phase_work env i = None)"
proof -
  have "{1..4::nat} = {1, 2, 3, 4}" by auto
  then show ?thesis
    unfolding run_phases_None_iff enumerate_phases by simp
qed

lemma field_final_result:
  "field ''study_id'' (final_result env sid rs t k) = Some sid"
  "field ''status'' (final_result env sid rs t k) = Some (PStr ''completed'')"
  "field ''phases'' (final_result env sid rs t k) = Some (PList rs)"
  by (simp_all add: final_result_def)

lemma field_error_result:
  "field ''study_id'' (error_result env sid e k) = Some sid"
  "field ''status'' (error_result env sid e k) = Some (PStr ''error'')"
  "field ''error'' (error_result env sid e k) = Some (PStr (exn_str e))"
  "field ''phases'' (error_result env sid e k) = None"
  "keys (error_result env sid e k) = [''study_id'', ''status'', ''error'', ''failed_at'']"
  by (simp_all add: error_result_def)

lemma records_phase_names: "map (field ''phase'') (records_from env k ps) = map (\<lambda>p. Some (PStr p)) ps"
  by (induction ps arbitrary: k) (simp_all add: phase_record_def)

lemma records_all_completed:
  "list_all (\<lambda>r. field ''status'' r = Some (PStr ''completed'')) (records_from env k ps)"
  by (induction ps arbitrary: k) (simp_all add: phase_record_def)

lemma records_serializable: "list_all json_serializable (records_from env k ps)"
  by (induction ps arbitrary: k) (simp_all add: phase_record_def)

lemma length_records [simp]: "length (records_from env k ps) = length ps"
  by (induction ps arbitrary: k) simp_all

lemma final_result_serializable:
  "json_serializable sid \<Longrightarrow> json_serializable t \<Longrightarrow> list_all json_serializable rs \<Longrightarrow>
   json_serializable (final_result env sid rs t k)"
  by (simp add: final_result_def)

lemma error_result_serializable:
  "json_serializable sid \<Longrightarrow> json_serializable (error_result env sid e k)"
  by (simp add: error_result_def)

lemma process_study_not_dict:
  "process_study env self (PStr s) =
     (self, Inl (AttributeError ([CHR 0x27] @ ''str'' @ [CHR 0x27] @ '' object has no attribute ''
                                 @ [CHR 0x27] @ ''get'' @ [CHR 0x27])))"
  by (simp add: process_study_def get_method_def)









lemma endpoint_fallback:
  "process_study_endpoint env self (Request None) =
     (case process_study env self demo_data of
        (self', Inl e) \<Rightarrow> (self', Inl e)
      | (self', Inr result) \<Rightarrow> (self', json_response result))"
  by (simp add: process_study_endpoint_def)

lemma demo_id_formats:
  "fstring env (dict_get [(''id'', PStr ''demo-study''),
        (''title'', PStr (''Estudo de Demonstra'' @ [CHR 0xC3, CHR 0xA7, CHR 0xC3, CHR 0xA3] @ ''o'')),
        (''client'', PStr ''Cliente Demo'')] ''id'' (PStr ''demo-001'')) = None"
  by (simp add: dict_get_def)

lemma endpoint_on_demo:
  "\<exists>self' r. process_study env self demo_data = (self', Inr r)
      \<and> process_study_endpoint env self (Request None) = (self', Inr \<lparr>http_status = 200, http_body = r\<rparr>)
      \<and> field ''study_id'' r = Some (PStr ''demo-study'')
      \<and> (field ''status'' r = Some (PStr ''completed'') \<or> field ''status'' r = Some (PStr ''error''))"
proof (cases "snd (run_phases env (List.enumerate 1 phases) [])")
  case None
  then have ok: "\<forall>i\<in>{1..4}. phase_work env i = None" by (simp only: no_phase_raises_iff)
  have ps: "process_study env self demo_data =
      (add_completed self,
       Inr (final_result env (PStr ''demo-study'') (records_from env 0 phases)
              (PStr (''Estudo de Demonstra'' @ [CHR 0xC3, CHR 0xA7, CHR 0xC3, CHR 0xA3] @ ''o'')) 4))"
    unfolding demo_data_def
    using process_study_returns [OF demo_id_formats ok, where self = self] by (simp add: dict_get_def)
  show ?thesis
    unfolding endpoint_fallback ps
    by (simp add: json_response_def final_result_serializable records_serializable field_final_result)
next
  case (Some e)
  have ps: "process_study env self demo_data =
      (add_failed self,
       Inr (error_result env (PStr ''demo-study'') e
              (length (fst (run_phases env (List.enumerate 1 phases) [])))))"
    unfolding demo_data_def
    using process_study_dict_cases [OF demo_id_formats, where self = self] Some by (simp add: dict_get_def)
  show ?thesis
    unfolding endpoint_fallback ps
    by (simp add: json_response_def error_result_serializable field_error_result)
qed

section \<open>test_apis\<close>

lemma test_apis_eq:
  "test_apis env self =
     ([openai_request self, supabase_request self],
      [(''openai'', probe_entry (http env (openai_request self)) ''~1s''),
       (''supabase'', probe_entry (http env (supabase_request self)) ''~500ms'')])"
  by (simp add: test_apis_def Let_def)

lemma probe_entry_serializable: "json_serializable (probe_entry outcome label)"
  by (cases outcome) (simp_all add: probe_entry_def)

lemma probe_entry_status:
  "field ''status'' (probe_entry outcome label) =
     Some (PStr (if outcome = Responded 200 then ''ok'' else ''error''))"
  by (cases outcome) (simp_all add: probe_entry_def)

lemma api_status_eq:
  "api_status env self request =
     Inr \<lparr>http_status = 200,
          http_body = PDict [(''apis'', PDict (snd (test_apis env self))),
                             (''timestamp'', PStr (isoformat env (now env 0)))]\<rparr>"
  by (simp add: api_status_def json_response_def test_apis_eq probe_entry_serializable)

lemma requests_differ: "openai_request self \<noteq> supabase_request self"
proof
  assume "openai_request self = supabase_request self"
  then have "http_method (openai_request self) = http_method (supabase_request self)" by simp
  then show False by (simp add: openai_request_def supabase_request_def)
qed

section \<open>The claims\<close>

text \<open>
  C1. A \<^verbatim>\<open>POST /process\<close> whose body is \<^verbatim>\<open>{"id":"s-1","title":"T"}\<close>, when no phase raises:
  the handler returns a response of status 200 whose body has \<^verbatim>\<open>study_id\<close> \<^verbatim>\<open>"s-1"\<close>, \<^verbatim>\<open>status\<close>
  \<^verbatim>\<open>"completed"\<close>, a \<^verbatim>\<open>phases\<close> list of exactly four records, named as the four phases in
  their declared order and each of status \<^verbatim>\<open>"completed"\<close>, and a \<^verbatim>\<open>final_content\<close> with
  \<^verbatim>\<open>chapters\<close> 8, \<^verbatim>\<open>words\<close> 15000 and \<^verbatim>\<open>cost_usd\<close> 7.50.
\<close>

theorem process_scenario_s1:
  assumes "\<forall>i\<in>{1..4}. phase_work env i = None"
  shows "\<exists>self' resp rs fc.
           process_study_endpoint env self s1_request = (self', Inr resp)
           \<and> http_status resp = 200
           \<and> field ''study_id'' (http_body resp) = Some (PStr ''s-1'')
           \<and> field ''status'' (http_body resp) = Some (PStr ''completed'')
           \<and> field ''phases'' (http_body resp) = Some (PList rs)
           \<and> length rs = 4
           \<and> map (field ''phase'') rs = map (\<lambda>p. Some (PStr p)) phases
           \<and> list_all (\<lambda>r. field ''status'' r = Some (PStr ''completed'')) rs
           \<and> field ''final_content'' (http_body resp) = Some fc
           \<and> field ''chapters'' fc = Some (PInt 8)
           \<and> field ''words'' fc = Some (PInt 15000)
           \<and> field ''cost_usd'' fc = Some (PFloat 7.50)"
proof -
  let ?rs = "records_from env 0 phases"
  let ?res = "final_result env (PStr ''s-1'') ?rs (PStr ''T'') 4"
  have ser: "json_serializable ?res"
    by (rule final_result_serializable) (simp_all add: records_serializable)
  have "process_study env self (PDict [(''id'', PStr ''s-1''), (''title'', PStr ''T'')])
          = (add_completed self, Inr ?res)"
    using process_study_returns [OF _ assms, of "[(''id'', PStr ''s-1''), (''title'', PStr ''T'')]" self]
    by (simp add: dict_get_def)
  then have run: "process_study_endpoint env self s1_request
          = (add_completed self, Inr \<lparr>http_status = 200, http_body = ?res\<rparr>)"
    using ser by (simp add: process_study_endpoint_def s1_request_def json_response_def)
  have len: "length ?rs = 4" by (simp add: phases_def)
  have fc: "field ''final_content'' ?res =
      Some (PDict [(''title'', PStr ''T''), (''chapters'', PInt 8), (''words'', PInt 15000),
                   (''images'', PInt 5), (''charts'', PInt 3),
                   (''processing_time'', PStr ''2.5 hours''), (''cost_usd'', PFloat 7.50)])"
    by (simp add: final_result_def)
  show ?thesis
    apply (rule exI [of _ "add_completed self"])
    apply (rule exI [of _ "\<lparr>http_status = 200, http_body = ?res\<rparr>"])
    apply (rule exI [of _ ?rs])
    apply (rule exI [of _ "PDict [(''title'', PStr ''T''), (''chapters'', PInt 8), (''words'', PInt 15000),
                   (''images'', PInt 5), (''charts'', PInt 3),
                   (''processing_time'', PStr ''2.5 hours''), (''cost_usd'', PFloat 7.50)]"])
    using run len fc
    by (simp add: field_final_result records_phase_names records_all_completed)
qed

theorem process_scenario_s1_witness:
  "phase_work quiet_env 1 = None \<and> phase_work quiet_env 2 = None \<and>
   phase_work quiet_env 3 = None \<and> phase_work quiet_env 4 = None \<and>
   (\<exists>self' resp rs fc.
           process_study_endpoint quiet_env (init 0 no_config) s1_request = (self', Inr resp)
           \<and> http_status resp = 200
           \<and> field ''study_id'' (http_body resp) = Some (PStr ''s-1'')
           \<and> field ''status'' (http_body resp) = Some (PStr ''completed'')
           \<and> field ''phases'' (http_body resp) = Some (PList rs)
           \<and> length rs = 4
           \<and> map (field ''phase'') rs = map (\<lambda>p. Some (PStr p)) phases
           \<and> list_all (\<lambda>r. field ''status'' r = Some (PStr ''completed'')) rs
           \<and> field ''final_content'' (http_body resp) = Some fc
           \<and> field ''chapters'' fc = Some (PInt 8)
           \<and> field ''words'' fc = Some (PInt 15000)
           \<and> field ''cost_usd'' fc = Some (PFloat 7.50))"
proof -
  have h: "\<forall>i\<in>{1..4}. phase_work quiet_env i = None" by (simp add: quiet_env_def)
  have "phase_work quiet_env 1 = None \<and> phase_work quiet_env 2 = None \<and>
        phase_work quiet_env 3 = None \<and> phase_work quiet_env 4 = None"
    by (simp add: quiet_env_def)
  with process_scenario_s1 [OF h, of "init 0 no_config"] show ?thesis by blast
qed










text \<open>
  C5. A \<^verbatim>\<open>POST /process\<close> whose body is \<^verbatim>\<open>NaN\<close>: the body is not a JSON text, but \<^verbatim>\<open>json.loads\<close>
  accepts it, so \<^verbatim>\<open>request.json()\<close> returns the float \<^verbatim>\<open>nan\<close> and the demo dict is not
  substituted. \<^verbatim>\<open>process_study\<close> is called on the float and raises AttributeError at line 50;
  the handler does not catch it. In every environment and state, no response of status
  200 is returned, and the state of the orchestrator is unchanged.
\<close>

theorem nan_body_raises:
  "process_study_endpoint env self (Request (Some (PNonFinite NaN))) =
     (self, Inl (AttributeError ([CHR 0x27] @ ''float'' @ [CHR 0x27] @ '' object has no attribute ''
                                 @ [CHR 0x27] @ ''get'' @ [CHR 0x27])))"
  by (simp add: process_study_endpoint_def process_study_def get_method_def)

text \<open>
  C6. A \<^verbatim>\<open>POST /process\<close> whose body is the JSON string \<^verbatim>\<open>"not json"\<close>: the body is a valid
  JSON text, so \<^verbatim>\<open>request.json()\<close> returns the str \<^verbatim>\<open>'not json'\<close> and the demo dict is not
  substituted. \<^verbatim>\<open>process_study\<close> is called on the str and raises AttributeError at line 50;
  the handler does not catch it. No response of status 200 is returned, and the state of
  the orchestrator is unchanged.
\<close>

theorem json_string_body_raises:
  "process_study_endpoint env self (Request (Some (PStr ''not json''))) =
     (self, Inl (AttributeError ([CHR 0x27] @ ''str'' @ [CHR 0x27] @ '' object has no attribute ''
                                 @ [CHR 0x27] @ ''get'' @ [CHR 0x27])))"
  by (simp add: process_study_endpoint_def process_study_not_dict)

text \<open>
  C7. \<^verbatim>\<open>GET /health\<close>: the handler builds the body, with \<^verbatim>\<open>status\<close> \<^verbatim>\<open>"healthy"\<close> and
  \<^verbatim>\<open>uptime_seconds\<close> the whole seconds between the recorded start and now, and hands it to
  \<^verbatim>\<open>web.json_response\<close>. The body holds \<^verbatim>\<open>processing_stats\<close>, whose \<^verbatim>\<open>uptime_start\<close> is a
  datetime, so \<^verbatim>\<open>json.dumps\<close> raises TypeError: in every state and environment the handler
  raises and returns no response of status 200.
\<close>

theorem health_check_raises:
  "health_check env self request = Inl (TypeError ''Object of type datetime is not JSON serializable'')
   \<and> field ''status'' (health_body env self) = Some (PStr ''healthy'')
   \<and> field ''uptime_seconds'' (health_body env self) =
        Some (PInt (int_total_seconds (now env 0 - uptime_start (processing_stats self))))
   \<and> field ''stats'' (health_body env self) = Some (stats_value (processing_stats self))
   \<and> field ''uptime_start'' (stats_value (processing_stats self)) =
        Some (PDatetime (uptime_start (processing_stats self)))"
  by (simp add: health_check_def health_body_def json_response_def stats_value_def)

text \<open>
  C8. The two probes of \<^verbatim>\<open>test_apis\<close> are independent. Both requests are always sent, the
  second also when the first fails. The entry of each provider is determined by what came
  of its own request: when that request raises \<open>e\<close> the entry is
  \<^verbatim>\<open>{'status': 'error', 'error': str(e)}\<close>, and in two environments that agree on one
  provider's request the entry of that provider is the same, whatever happens to the
  other. \<^verbatim>\<open>api_status\<close> embeds the entries in its payload and always returns a response of
  status 200.
\<close>

theorem probes_are_independent:
  "fst (test_apis env self) = [openai_request self, supabase_request self]
   \<and> map_of (snd (test_apis env self)) ''openai'' =
        Some (probe_entry (http env (openai_request self)) ''~1s'')
   \<and> map_of (snd (test_apis env self)) ''supabase'' =
        Some (probe_entry (http env (supabase_request self)) ''~500ms'')
   \<and> (\<forall>e. http env (openai_request self) = Failed e \<longrightarrow>
         map_of (snd (test_apis env self)) ''openai'' =
           Some (PDict [(''status'', PStr ''error''), (''error'', PStr (exn_str e))]))
   \<and> (\<forall>e. http env (supabase_request self) = Failed e \<longrightarrow>
         map_of (snd (test_apis env self)) ''supabase'' =
           Some (PDict [(''status'', PStr ''error''), (''error'', PStr (exn_str e))]))
   \<and> (\<forall>env'. http env' (supabase_request self) = http env (supabase_request self) \<longrightarrow>
         map_of (snd (test_apis env' self)) ''supabase'' = map_of (snd (test_apis env self)) ''supabase'')
   \<and> (\<forall>env'. http env' (openai_request self) = http env (openai_request self) \<longrightarrow>
         map_of (snd (test_apis env' self)) ''openai'' = map_of (snd (test_apis env self)) ''openai'')
   \<and> (\<exists>resp. api_status env self request = Inr resp
         \<and> http_status resp = 200
         \<and> field ''apis'' (http_body resp) = Some (PDict (snd (test_apis env self))))"
  by (simp add: test_apis_eq api_status_eq probe_entry_def)

theorem probes_are_independent_witness:
  "http offline_env (openai_request (init 0 no_config)) = Failed (PyExn ''TimeoutError'' [])
   \<and> http offline_env (supabase_request (init 0 no_config)) = Responded 200
   \<and> http quiet_env (supabase_request (init 0 no_config)) = http offline_env (supabase_request (init 0 no_config))
   \<and> map_of (snd (test_apis offline_env (init 0 no_config))) ''openai'' =
        Some (PDict [(''status'', PStr ''error''), (''error'', PStr [])])
   \<and> map_of (snd (test_apis offline_env (init 0 no_config))) ''supabase'' =
        Some (PDict [(''status'', PStr ''ok''), (''response_time'', PStr ''~500ms'')])
   \<and> map_of (snd (test_apis quiet_env (init 0 no_config))) ''supabase'' =
        map_of (snd (test_apis offline_env (init 0 no_config))) ''supabase''
   \<and> http supabase_down_env (supabase_request (init 0 no_config)) =
        Failed (PyExn ''ClientConnectorError'' ''Cannot connect to host'')
   \<and> http quiet_env (openai_request (init 0 no_config)) =
        http supabase_down_env (openai_request (init 0 no_config))
   \<and> map_of (snd (test_apis supabase_down_env (init 0 no_config))) ''supabase'' =
        Some (PDict [(''status'', PStr ''error''), (''error'', PStr ''Cannot connect to host'')])
   \<and> map_of (snd (test_apis supabase_down_env (init 0 no_config))) ''openai'' =
        Some (PDict [(''status'', PStr ''ok''), (''response_time'', PStr ''~1s'')])
   \<and> map_of (snd (test_apis quiet_env (init 0 no_config))) ''openai'' =
        map_of (snd (test_apis supabase_down_env (init 0 no_config))) ''openai''"
proof -
  let ?self = "init 0 no_config"
  have o: "http offline_env (openai_request ?self) = Failed (PyExn ''TimeoutError'' [])"
    by (simp add: offline_env_def openai_request_def)
  have s: "http offline_env (supabase_request ?self) = Responded 200"
    by (simp add: offline_env_def supabase_request_def)
  have q: "http quiet_env (supabase_request ?self) = http offline_env (supabase_request ?self)"
    by (simp add: s quiet_env_def)
  have s': "http supabase_down_env (supabase_request ?self) =
      Failed (PyExn ''ClientConnectorError'' ''Cannot connect to host'')"
    by (simp add: supabase_down_env_def supabase_request_def)
  have o': "http supabase_down_env (openai_request ?self) = Responded 200"
    by (simp add: supabase_down_env_def openai_request_def)
  have q': "http quiet_env (openai_request ?self) = http supabase_down_env (openai_request ?self)"
    by (simp add: o' quiet_env_def)
  note t = probes_are_independent [of offline_env ?self "Request None"]
  note t' = probes_are_independent [of supabase_down_env ?self "Request None"]
  from t have a: "map_of (snd (test_apis offline_env ?self)) ''openai'' =
        Some (PDict [(''status'', PStr ''error''), (''error'', PStr (exn_str (PyExn ''TimeoutError'' [])))])"
    using o by blast
  from t have b: "map_of (snd (test_apis offline_env ?self)) ''supabase'' =
        Some (probe_entry (http offline_env (supabase_request ?self)) ''~500ms'')"
    by blast
  from t have c: "map_of (snd (test_apis quiet_env ?self)) ''supabase'' =
        map_of (snd (test_apis offline_env ?self)) ''supabase''"
    using q by blast
  from t' have a': "map_of (snd (test_apis supabase_down_env ?self)) ''supabase'' =
        Some (PDict [(''status'', PStr ''error''),
                     (''error'', PStr (exn_str (PyExn ''ClientConnectorError'' ''Cannot connect to host'')))])"
    using s' by blast
  from t' have b': "map_of (snd (test_apis supabase_down_env ?self)) ''openai'' =
        Some (probe_entry (http supabase_down_env (openai_request ?self)) ''~1s'')"
    by blast
  from t' have c': "map_of (snd (test_apis quiet_env ?self)) ''openai'' =
        map_of (snd (test_apis supabase_down_env ?self)) ''openai''"
    using q' by blast
  have e1: "map_of (snd (test_apis offline_env ?self)) ''openai'' =
        Some (PDict [(''status'', PStr ''error''), (''error'', PStr [])])"
    using a by simp
  have e2: "map_of (snd (test_apis offline_env ?self)) ''supabase'' =
        Some (PDict [(''status'', PStr ''ok''), (''response_time'', PStr ''~500ms'')])"
    using b by (simp add: s probe_entry_def)
  have e3: "map_of (snd (test_apis supabase_down_env ?self)) ''supabase'' =
        Some (PDict [(''status'', PStr ''error''), (''error'', PStr ''Cannot connect to host'')])"
    using a' by simp
  have e4: "map_of (snd (test_apis supabase_down_env ?self)) ''openai'' =
        Some (PDict [(''status'', PStr ''ok''), (''response_time'', PStr ''~1s'')])"
    using b' by (simp add: o' probe_entry_def)
  from o s q e1 e2 c s' q' e3 e4 c' show ?thesis by blast
qed

text \<open>
  C9, as stated, fails: not every HTTP success status is classified as \<^verbatim>\<open>"ok"\<close>. A response
  of status 204 (No Content, a success status) is classified as \<^verbatim>\<open>"error"\<close>, because the code
  compares the status with 200.
\<close>

theorem no_content_status_is_error:
  "http no_content_env (supabase_request (init 0 no_config)) = Responded 204
   \<and> map_of (snd (test_apis no_content_env (init 0 no_config))) ''supabase'' =
        Some (PDict [(''status'', PStr ''error''), (''response_time'', PStr ''~500ms'')])"
  by (simp add: test_apis_eq probe_entry_def no_content_env_def)

text \<open>
  C9, amended. \<^verbatim>\<open>test_apis\<close> sends exactly two requests, both with timeout 30: a POST to the
  chat-completion URL of OpenAI and a GET to \<^verbatim>\<open>/rest/v1/\<close> under the configured Supabase URL.
  It stores one entry for each of the two providers, whose \<^verbatim>\<open>status\<close> is \<^verbatim>\<open>"ok"\<close> when the
  response has status 200 and \<^verbatim>\<open>"error"\<close> for every other status and for every exception
  raised by the request (a transport failure or a timeout).
\<close>

theorem two_probes_classified:
  "fst (test_apis env self) = [openai_request self, supabase_request self]
   \<and> openai_request self \<noteq> supabase_request self
   \<and> http_method (openai_request self) = ''POST''
   \<and> url (openai_request self) = ''https://api.openai.com/v1/chat/completions''
   \<and> timeout (openai_request self) = 30
   \<and> http_method (supabase_request self) = ''GET''
   \<and> url (supabase_request self) = py_format (supabase_url (config self)) @ ''/rest/v1/''
   \<and> timeout (supabase_request self) = 30
   \<and> keys (PDict (snd (test_apis env self))) = [''openai'', ''supabase'']
   \<and> (\<exists>eo es. map_of (snd (test_apis env self)) ''openai'' = Some eo
         \<and> map_of (snd (test_apis env self)) ''supabase'' = Some es
         \<and> field ''status'' eo =
             Some (PStr (if http env (openai_request self) = Responded 200 then ''ok'' else ''error''))
         \<and> field ''status'' es =
             Some (PStr (if http env (supabase_request self) = Responded 200 then ''ok'' else ''error'')))"
  using requests_differ [of self]
  by (simp add: test_apis_eq probe_entry_status)
     (simp add: openai_request_def supabase_request_def)

theorem two_probes_classified_witness:
  "fst (test_apis offline_env (init 0 no_config)) =
     [openai_request (init 0 no_config), supabase_request (init 0 no_config)]
   \<and> timeout (openai_request (init 0 no_config)) = 30
   \<and> timeout (supabase_request (init 0 no_config)) = 30
   \<and> url (supabase_request (init 0 no_config)) = ''None/rest/v1/''
   \<and> (\<exists>eo es. map_of (snd (test_apis offline_env (init 0 no_config))) ''openai'' = Some eo
         \<and> map_of (snd (test_apis offline_env (init 0 no_config))) ''supabase'' = Some es
         \<and> field ''status'' eo = Some (PStr ''error'')
         \<and> field ''status'' es = Some (PStr ''ok''))"
proof -
  let ?self = "init 0 no_config"
  have o: "http offline_env (openai_request ?self) = Failed (PyExn ''TimeoutError'' [])"
    by (simp add: offline_env_def openai_request_def)
  have s: "http offline_env (supabase_request ?self) = Responded 200"
    by (simp add: offline_env_def supabase_request_def)
  have u: "py_format (supabase_url (config ?self)) @ ''/rest/v1/'' = ''None/rest/v1/''"
    by (simp add: py_format_def init_def no_config_def)
  have c1: "(if Failed (PyExn ''TimeoutError'' []) = Responded 200 then ''ok'' else ''error'') = ''error''"
    by simp
  have c2: "(if Responded 200 = Responded 200 then ''ok'' else ''error'') = ''ok''"
    by simp
  note t = two_probes_classified [of offline_env ?self, unfolded o s u c1 c2]
  from t have "fst (test_apis offline_env ?self) = [openai_request ?self, supabase_request ?self]"
    by (rule conjunct1)
  moreover from t have "timeout (openai_request ?self) = 30" by blast
  moreover from t have "timeout (supabase_request ?self) = 30" by blast
  moreover from t have "url (supabase_request ?self) = ''None/rest/v1/''" by blast
  moreover from t have "\<exists>eo es. map_of (snd (test_apis offline_env ?self)) ''openai'' = Some eo
         \<and> map_of (snd (test_apis offline_env ?self)) ''supabase'' = Some es
         \<and> field ''status'' eo = Some (PStr ''error'')
         \<and> field ''status'' es = Some (PStr ''ok'')" by blast
  ultimately show ?thesis by blast
qed

text \<open>
  C10. When \<^verbatim>\<open>request.json()\<close> raises, the response of \<^verbatim>\<open>POST /process\<close> carries the
  \<^verbatim>\<open>study_id\<close> \<^verbatim>\<open>"demo-study"\<close>, in every environment and state: the same constant for every
  such request, not a generated value. When \<^verbatim>\<open>process_study\<close> is called on a dict that has
  no \<^verbatim>\<open>'id'\<close> key, the \<^verbatim>\<open>study_id\<close> of the dict it returns is the constant \<^verbatim>\<open>"demo-001"\<close>.
\<close>

theorem fallback_ids_are_constants:
  "(\<exists>self' resp. process_study_endpoint env self (Request None) = (self', Inr resp)
       \<and> field ''study_id'' (http_body resp) = Some (PStr ''demo-study'')) \<and>
   (map_of kvs ''id'' = None \<longrightarrow>
      (\<exists>self' r. process_study env self (PDict kvs) = (self', Inr r)
         \<and> field ''study_id'' r = Some (PStr ''demo-001'')))"
proof (intro conjI impI)
  from endpoint_on_demo [of env self]
  show "\<exists>self' resp. process_study_endpoint env self (Request None) = (self', Inr resp)
       \<and> field ''study_id'' (http_body resp) = Some (PStr ''demo-study'')"
    by auto
next
  assume absent: "map_of kvs ''id'' = None"
  then have d: "dict_get kvs ''id'' (PStr ''demo-001'') = PStr ''demo-001''"
    by (simp add: dict_get_def)
  then have f: "fstring env (dict_get kvs ''id'' (PStr ''demo-001'')) = None"
    by simp
  show "\<exists>self' r. process_study env self (PDict kvs) = (self', Inr r)
         \<and> field ''study_id'' r = Some (PStr ''demo-001'')"
    by (cases "snd (run_phases env (List.enumerate 1 phases) [])")
       (simp_all add: process_study_dict_cases [OF f] field_final_result field_error_result d)
qed

theorem fallback_ids_are_constants_witness:
  "map_of [(''title'', PStr ''T'')] ''id'' = None \<and>
   (\<exists>self' resp. process_study_endpoint failing_env (init 0 no_config) (Request None) = (self', Inr resp)
       \<and> field ''study_id'' (http_body resp) = Some (PStr ''demo-study'')) \<and>
   (\<exists>self' r. process_study failing_env (init 0 no_config) (PDict [(''title'', PStr ''T'')]) = (self', Inr r)
         \<and> field ''study_id'' r = Some (PStr ''demo-001''))"
proof -
  have h: "map_of [(''title'', PStr ''T'')] ''id'' = None" by simp
  from fallback_ids_are_constants [of failing_env "init 0 no_config" "[(''title'', PStr ''T'')]"] h
  show ?thesis by blast
qed

end
